theory Spec2Isabelle
  imports Complex_Main "HOL-Library.Sublist"
begin

section \<open>JavaScript values used by the service\<close>

text \<open>
  The service class \<open>MGNREGAService\<close> computes with JavaScript numbers and strings.
  A finite double is modelled by the rational it denotes (no rounding and no overflow of
  the arithmetic is modelled); the three non-finite doubles are separate constructors.
  \<open>Null\<close> is what a numeric field holds after \<open>JSON.parse(JSON.stringify(v))\<close> when
  \<open>v\<close> was not finite. Strings are lists of 8-bit characters.
\<close>

datatype jsnum = Num rat | NaN | PosInf | NegInf | Null

text \<open>\<open>v || 0\<close> for a number \<open>v\<close>: \<open>NaN\<close> and \<open>0\<close> are falsy.\<close>

fun or_zero :: "jsnum \<Rightarrow> jsnum" where
  "or_zero NaN = Num 0"
| "or_zero Null = Num 0"
| "or_zero v = v"

text \<open>
  A unary operation that is increasing and unbounded (\<open>Math.floor\<close>, \<open>Math.round\<close>,
  multiplication or division by a positive constant) keeps \<open>NaN\<close> and the infinities;
  \<open>null\<close> is coerced to \<open>0\<close>.
\<close>

fun jmap :: "(rat \<Rightarrow> rat) \<Rightarrow> jsnum \<Rightarrow> jsnum" where
  "jmap f (Num x) = Num (f x)"
| "jmap f Null = Num (f 0)"
| "jmap f v = v"

fun jsign :: "jsnum \<Rightarrow> int" where
  "jsign (Num x) = (if x < 0 then -1 else if x = 0 then 0 else 1)"
| "jsign PosInf = 1"
| "jsign NegInf = -1"
| "jsign v = 0"

text \<open>The product \<open>a * b\<close> of two numbers.\<close>

fun to_number :: "jsnum \<Rightarrow> jsnum" where
  "to_number Null = Num 0"
| "to_number v = v"

fun mul_numbers :: "jsnum \<Rightarrow> jsnum \<Rightarrow> jsnum" where
  "mul_numbers NaN b = NaN"
| "mul_numbers a NaN = NaN"
| "mul_numbers (Num x) (Num y) = Num (x * y)"
| "mul_numbers a b = (if jsign a * jsign b = 0 then NaN
                      else if jsign a * jsign b < 0 then NegInf else PosInf)"

definition jmul :: "jsnum \<Rightarrow> jsnum \<Rightarrow> jsnum" where
  "jmul a b = mul_numbers (to_number a) (to_number b)"

text \<open>\<open>Math.floor(v)\<close> and \<open>Math.round(v * 100) / 100\<close>; \<open>Math.round\<close> rounds a half up.\<close>

definition jfloor :: "jsnum \<Rightarrow> jsnum" where
  "jfloor = jmap (\<lambda>x. of_int \<lfloor>x\<rfloor>)"

definition round2 :: "jsnum \<Rightarrow> jsnum" where
  "round2 = jmap (\<lambda>x. of_int \<lfloor>x * 100 + 1 / 2\<rfloor> / 100)"

definition is_finite :: "jsnum \<Rightarrow> bool" where
  "is_finite v = (case v of Num x \<Rightarrow> True | _ \<Rightarrow> False)"

subsection \<open>Strings\<close>

text \<open>\<open>s.charCodeAt(i)\<close> is \<open>NaN\<close> (here \<open>None\<close>) when \<open>i\<close> is out of range.\<close>

definition charCodeAt :: "string \<Rightarrow> nat \<Rightarrow> int option" where
  "charCodeAt s i = (if i < length s then Some (int (of_char (s ! i))) else None)"

text \<open>\<open>toLowerCase\<close> on the ASCII letters.\<close>

definition lower_char :: "char \<Rightarrow> char" where
  "lower_char c =
     (let n = (of_char c :: nat) in
      if 65 \<le> n \<and> n \<le> 90 then ''abcdefghijklmnopqrstuvwxyz'' ! (n - 65) else c)"

definition toLowerCase :: "string \<Rightarrow> string" where
  "toLowerCase s = map lower_char s"

text \<open>The white space of the regular expression class \<open>\s\<close> and of the number parsers.\<close>

definition is_space :: "char \<Rightarrow> bool" where
  "is_space c = (let n = (of_char c :: nat) in (9 \<le> n \<and> n \<le> 13) \<or> n = 32 \<or> n = 160)"

text \<open>\<open>s.replace(/\s+/g, r)\<close>: every maximal run of white space becomes \<open>r\<close>.\<close>

fun replace_ws_from :: "bool \<Rightarrow> string \<Rightarrow> string \<Rightarrow> string" where
  "replace_ws_from in_run r [] = []"
| "replace_ws_from in_run r (c # cs) =
     (if is_space c then (if in_run then [] else r) @ replace_ws_from True r cs
      else c # replace_ws_from False r cs)"

definition replace_ws :: "string \<Rightarrow> string \<Rightarrow> string" where
  "replace_ws r s = replace_ws_from False r s"

text \<open>\<open>hay.includes(needle)\<close>.\<close>

fun starts_with :: "string \<Rightarrow> string \<Rightarrow> bool" where
  "starts_with hay [] = True"
| "starts_with [] (n # ns) = False"
| "starts_with (h # hs) (n # ns) = (h = n \<and> starts_with hs ns)"

fun includes_str :: "string \<Rightarrow> string \<Rightarrow> bool" where
  "includes_str [] needle = (needle = [])"
| "includes_str (h # hs) needle = (starts_with (h # hs) needle \<or> includes_str hs needle)"

text \<open>\<open>s.split('-')\<close>: the pieces between the dashes, at least one.\<close>

fun split_dash :: "string \<Rightarrow> string list" where
  "split_dash [] = [[]]"
| "split_dash (c # cs) =
     (if c = CHR ''-'' then [] # split_dash cs
      else (case split_dash cs of [] \<Rightarrow> [[c]] | p # ps \<Rightarrow> (c # p) # ps))"

subsection \<open>Parsing and printing numbers\<close>

definition is_digit :: "char \<Rightarrow> bool" where
  "is_digit c = (let n = (of_char c :: nat) in 48 \<le> n \<and> n \<le> 57)"

definition digit_val :: "char \<Rightarrow> nat" where
  "digit_val c = of_char c - 48"

definition hex_val :: "char \<Rightarrow> nat option" where
  "hex_val c =
     (let n = (of_char c :: nat) in
      if 48 \<le> n \<and> n \<le> 57 then Some (n - 48)
      else if 65 \<le> n \<and> n \<le> 70 then Some (n - 55)
      else if 97 \<le> n \<and> n \<le> 102 then Some (n - 87)
      else None)"

fun dec_value :: "nat \<Rightarrow> string \<Rightarrow> nat" where
  "dec_value acc [] = acc"
| "dec_value acc (c # cs) = dec_value (acc * 10 + digit_val c) cs"

fun hex_value :: "nat \<Rightarrow> string \<Rightarrow> nat" where
  "hex_value acc [] = acc"
| "hex_value acc (c # cs) = hex_value (acc * 16 + (case hex_val c of Some d \<Rightarrow> d | None \<Rightarrow> 0)) cs"

text \<open>An optional sign in front of a numeric literal: the factor and the rest.\<close>

fun take_sign :: "string \<Rightarrow> int \<times> string" where
  "take_sign [] = (1, [])"
| "take_sign (c # cs) =
     (if c = CHR ''-'' then (-1, cs) else if c = CHR ''+'' then (1, cs) else (1, c # cs))"

text \<open>
  \<open>parseInt(s)\<close> without a radix: leading white space, a sign, then the longest run of
  digits, hexadecimal after \<open>0x\<close> or \<open>0X\<close>; \<open>NaN\<close> (here \<open>None\<close>) when there is
  no digit.
\<close>

definition parseInt :: "string \<Rightarrow> int option" where
  "parseInt s =
     (let (sg, t) = take_sign (dropWhile is_space s) in
      if starts_with t ''0x'' \<or> starts_with t ''0X'' then
        (let ds = takeWhile (\<lambda>c. hex_val c \<noteq> None) (drop 2 t) in
         if ds = [] then None else Some (sg * int (hex_value 0 ds)))
      else
        (let ds = takeWhile is_digit t in
         if ds = [] then None else Some (sg * int (dec_value 0 ds))))"

text \<open>The exponent part \<open>e\<close>, \<open>e+\<close>, \<open>e-\<close> followed by digits; \<open>0\<close> when there is none.\<close>

definition exponent_of :: "string \<Rightarrow> int" where
  "exponent_of t =
     (case t of
        [] \<Rightarrow> 0
      | c # cs \<Rightarrow>
          if c = CHR ''e'' \<or> c = CHR ''E'' then
            (let (sg, u) = take_sign cs; ds = takeWhile is_digit u in
             if ds = [] then 0 else sg * int (dec_value 0 ds))
          else 0)"

definition pow10 :: "int \<Rightarrow> rat" where
  "pow10 e = (if 0 \<le> e then 10 ^ nat e else 1 / 10 ^ nat (- e))"

text \<open>
  \<open>parseFloat(s)\<close>: leading white space, a sign, then \<open>Infinity\<close> or the longest decimal
  literal (digits, a fraction, an exponent); \<open>NaN\<close> when there is no digit.
\<close>

definition parseFloat :: "string \<Rightarrow> jsnum" where
  "parseFloat s =
     (let (sg, t) = take_sign (dropWhile is_space s) in
      if starts_with t ''Infinity'' then (if sg < 0 then NegInf else PosInf)
      else
        (let ip = takeWhile is_digit t;
             r1 = dropWhile is_digit t;
             dot = starts_with r1 ''.'';
             fp = (if dot then takeWhile is_digit (drop 1 r1) else []);
             r2 = (if dot then dropWhile is_digit (drop 1 r1) else r1)
         in if ip = [] \<and> fp = [] then NaN
            else Num (of_int sg * of_nat (dec_value 0 (ip @ fp)) / 10 ^ length fp
                      * pow10 (exponent_of r2))))"

text \<open>
  A field of an upstream row may be missing: \<open>parseInt(undefined)\<close> is \<open>NaN\<close>.
  \<open>parseInt(f) || 0\<close> is an integer, \<open>parseFloat(f) || 0\<close> a number other than \<open>NaN\<close>.
\<close>

definition parseInt_or_zero :: "string option \<Rightarrow> int" where
  "parseInt_or_zero f =
     (case f of None \<Rightarrow> 0 | Some s \<Rightarrow> (case parseInt s of None \<Rightarrow> 0 | Some n \<Rightarrow> n))"

definition parseFloat_or_zero :: "string option \<Rightarrow> jsnum" where
  "parseFloat_or_zero f = or_zero (case f of None \<Rightarrow> NaN | Some s \<Rightarrow> parseFloat s)"

text \<open>Decimal digits of a natural number, and a number padded with zeros to a width.\<close>

definition digit_char :: "nat \<Rightarrow> char" where
  "digit_char d = ''0123456789'' ! d"

fun pad :: "nat \<Rightarrow> nat \<Rightarrow> string" where
  "pad 0 n = []"
| "pad (Suc w) n = pad w (n div 10) @ [digit_char (n mod 10)]"

fun show_nat :: "nat \<Rightarrow> string" where
  "show_nat n = (if n < 10 then [digit_char n] else show_nat (n div 10) @ [digit_char (n mod 10)])"

text \<open>The string of \<open>parseInt(s) + 1\<close> in a template literal.\<close>

definition show_int :: "int \<Rightarrow> string" where
  "show_int n = (if n < 0 then ''-'' @ show_nat (nat (- n)) else show_nat (nat n))"

definition show_succ :: "int option \<Rightarrow> string" where
  "show_succ v = (case v of None \<Rightarrow> ''NaN'' | Some n \<Rightarrow> show_int (n + 1))"

section \<open>The performance scorer\<close>

text \<open>
  \<open>calculatePerformanceScore(data)\<close> reads \<open>data.total_households\<close> and
  \<open>data.total_person_days\<close> only; its one caller passes \<open>parseInt(..) || 0\<close> for both,
  so they are integers.
\<close>

definition household_bonus :: "int \<Rightarrow> int" where
  "household_bonus h =
     (if h > 30000 then 20 else if h > 20000 then 15 else if h > 10000 then 10
      else if h > 5000 then 5 else 0)"

definition avgDays_of :: "int \<Rightarrow> int \<Rightarrow> rat" where
  "avgDays_of h pd = (if h > 0 then of_int pd / of_int h else 0)"

definition days_bonus :: "rat \<Rightarrow> int" where
  "days_bonus a =
     (if a > 25 then 20 else if a > 20 then 15 else if a > 15 then 10
      else if a > 10 then 5 else 0)"

definition calculatePerformanceScore :: "int \<Rightarrow> int \<Rightarrow> int" where
  "calculatePerformanceScore total_households total_person_days =
     min (60 + household_bonus total_households
             + days_bonus (avgDays_of total_households total_person_days)) 100"

section \<open>Districts, upstream rows and bundles\<close>

record district =
  code :: string
  name :: string
  lat :: rat
  lng :: rat

definition andhraPradeshDistricts :: "district list" where
  "andhraPradeshDistricts =
     [\<lparr>code = ''AP001'', name = ''Anantapur'', lat = 14.6819, lng = 77.6006\<rparr>,
      \<lparr>code = ''AP002'', name = ''Chittoor'', lat = 13.2156, lng = 79.1004\<rparr>,
      \<lparr>code = ''AP003'', name = ''East Godavari'', lat = 16.9454, lng = 82.2382\<rparr>,
      \<lparr>code = ''AP004'', name = ''Guntur'', lat = 16.3067, lng = 80.4365\<rparr>,
      \<lparr>code = ''AP005'', name = ''Krishna'', lat = 16.1667, lng = 81.1333\<rparr>,
      \<lparr>code = ''AP006'', name = ''Kurnool'', lat = 15.8300, lng = 78.0500\<rparr>,
      \<lparr>code = ''AP007'', name = ''Nellore'', lat = 14.4415, lng = 79.9864\<rparr>,
      \<lparr>code = ''AP008'', name = ''Prakasam'', lat = 15.5067, lng = 79.3200\<rparr>,
      \<lparr>code = ''AP009'', name = ''Srikakulam'', lat = 18.2989, lng = 83.8975\<rparr>,
      \<lparr>code = ''AP010'', name = ''Visakhapatnam'', lat = 17.6868, lng = 83.2185\<rparr>,
      \<lparr>code = ''AP011'', name = ''Vizianagaram'', lat = 18.1167, lng = 83.4167\<rparr>,
      \<lparr>code = ''AP012'', name = ''West Godavari'', lat = 16.9454, lng = 81.2382\<rparr>,
      \<lparr>code = ''AP013'', name = ''YSR Kadapa'', lat = 14.4667, lng = 78.8167\<rparr>]"

text \<open>\<open>andhraPradeshDistricts.find(d => d.code === districtCode)\<close>.\<close>

definition find_district :: "string \<Rightarrow> district option" where
  "find_district districtCode = List.find (\<lambda>d. code d = districtCode) andhraPradeshDistricts"

text \<open>
  A row of the upstream table. Every field may be missing (\<open>None\<close> is \<open>undefined\<close>); a
  field that is present is the string that \<open>parseInt\<close> and \<open>parseFloat\<close> read, which for a
  JSON number is its decimal form.
\<close>

record api_row =
  api_district_name :: "string option"
  fin_year :: "string option"
  api_month :: "string option"
  Persondays_of_Central_Liability_so_far :: "string option"
  Total_Households_Worked :: "string option"
  Total_Exp :: "string option"
  Average_days_of_employment_provided_per_Household :: "string option"
  Average_Wage_rate_per_day_per_person :: "string option"
  Women_Persondays :: "string option"
  SC_persondays :: "string option"
  ST_persondays :: "string option"
  Number_of_Completed_Works :: "string option"
  Number_of_Ongoing_Works :: "string option"
  Total_Individuals_Worked :: "string option"
  Total_No_of_JobCards_issued :: "string option"
  Total_No_of_HHs_completed_100_Days_of_Wage_Employment :: "string option"
  Differently_abled_persons_worked :: "string option"
  percentage_payments_gererated_within_15_days :: "string option"

text \<open>The object that \<open>processAPIData\<close> and \<open>generateMockData\<close> return.\<close>

record metrics_bundle =
  district_code :: string
  district_name :: string
  month_year :: string
  total_households :: jsnum
  total_person_days :: jsnum
  total_amount_spent :: jsnum
  avg_days_per_household :: jsnum
  avg_amount_per_household :: jsnum
  performance_score :: jsnum
  data_source :: string
  last_updated :: string
  financial_year :: "string option"
  month :: "string option"
  average_wage_rate :: jsnum
  women_persondays :: jsnum
  sc_persondays :: jsnum
  st_persondays :: jsnum
  completed_works :: jsnum
  ongoing_works :: jsnum
  total_individuals_worked :: jsnum
  total_job_cards :: jsnum
  households_100_days :: jsnum
  differently_abled_worked :: jsnum
  payment_within_15_days :: jsnum

datatype error =
    PersistenceError
  | UpstreamUnavailable
  | NoDataReceived
  | NoDataFound string
  | FailedToFetchDistrictData

section \<open>The name matcher\<close>

text \<open>The candidate names that the filter of \<open>processAPIData\<close> builds for a district.\<close>

definition possibleNames :: "district \<Rightarrow> string list" where
  "possibleNames targetDistrict =
     [toLowerCase (name targetDistrict),
      replace_ws [] (toLowerCase (name targetDistrict)),
      replace_ws ''.'' (toLowerCase (name targetDistrict))]
     @ (if code targetDistrict = ''AP013'' then [''y.s.r'', ''ysr'', ''kadapa'', ''y s r''] else [])
     @ (if code targetDistrict = ''AP004'' then [''ntr'', ''guntur''] else [])
     @ (if code targetDistrict = ''AP012'' then [''west godavari'', ''westgodavari''] else [])
     @ (if code targetDistrict = ''AP003'' then [''east godavari'', ''eastgodavari''] else [])"

text \<open>
  The predicate of \<open>records.filter\<close>: false without a target district or without a
  (non-empty) label, else whether the lowercased label includes some candidate.
\<close>

definition matches_district :: "string \<Rightarrow> api_row \<Rightarrow> bool" where
  "matches_district districtCode record =
     (case (map_option toLowerCase (api_district_name record), find_district districtCode) of
        (Some districtName, Some targetDistrict) \<Rightarrow>
          if districtName = [] then False
          else list_ex (\<lambda>n. includes_str districtName n) (possibleNames targetDistrict)
      | _ \<Rightarrow> False)"

section \<open>Normalising an upstream response\<close>

text \<open>The quotient \<open>a / b\<close> of two numbers.\<close>

fun div_numbers :: "jsnum \<Rightarrow> jsnum \<Rightarrow> jsnum" where
  "div_numbers NaN b = NaN"
| "div_numbers a NaN = NaN"
| "div_numbers (Num x) (Num y) =
     (if y \<noteq> 0 then Num (x / y)
      else if x = 0 then NaN else if x < 0 then NegInf else PosInf)"
| "div_numbers (Num x) b = Num 0"
| "div_numbers a (Num y) = (if (jsign a < 0) = (y < 0) then PosInf else NegInf)"
| "div_numbers a b = NaN"

definition jdiv :: "jsnum \<Rightarrow> jsnum \<Rightarrow> jsnum" where
  "jdiv a b = div_numbers (to_number a) (to_number b)"

text \<open>\<open>a || b || 'Unknown'\<close> for two strings that may be missing.\<close>

definition first_truthy :: "string option \<Rightarrow> string option \<Rightarrow> string" where
  "first_truthy a b =
     (case a of
        Some x \<Rightarrow> if x \<noteq> [] then x
                  else (case b of Some y \<Rightarrow> if y \<noteq> [] then y else ''Unknown''
                                | None \<Rightarrow> ''Unknown'')
      | None \<Rightarrow> (case b of Some y \<Rightarrow> if y \<noteq> [] then y else ''Unknown''
                          | None \<Rightarrow> ''Unknown''))"

text \<open>
  \<open>processAPIData(records, districtCode, monthYear)\<close>; \<open>now\<close> is the string of
  \<open>new Date().toISOString()\<close>. The error carries the district code of the message.
\<close>

definition processAPIData :: "api_row list \<Rightarrow> string \<Rightarrow> string \<Rightarrow> string \<Rightarrow> error + metrics_bundle" where
  "processAPIData records districtCode monthYear now =
     (case filter (matches_district districtCode) records of
        [] \<Rightarrow> Inl (NoDataFound districtCode)
      | latestRecord # _ \<Rightarrow>
          (let totalPersonDays = parseInt_or_zero (Persondays_of_Central_Liability_so_far latestRecord);
               totalHouseholds = parseInt_or_zero (Total_Households_Worked latestRecord);
               totalAmountSpent = parseFloat_or_zero (Total_Exp latestRecord)
           in Inr \<lparr>
             district_code = districtCode,
             district_name =
               first_truthy (map_option name (find_district districtCode))
                 (api_district_name latestRecord),
             month_year = monthYear,
             total_households = Num (of_int totalHouseholds),
             total_person_days = Num (of_int totalPersonDays),
             total_amount_spent = totalAmountSpent,
             avg_days_per_household =
               parseFloat_or_zero (Average_days_of_employment_provided_per_Household latestRecord),
             avg_amount_per_household =
               (if totalHouseholds > 0
                then round2 (jdiv totalAmountSpent (Num (of_int totalHouseholds)))
                else Num 0),
             performance_score =
               Num (of_int (calculatePerformanceScore totalHouseholds totalPersonDays)),
             data_source = ''data.gov.in'',
             last_updated = now,
             financial_year = fin_year latestRecord,
             month = api_month latestRecord,
             average_wage_rate =
               parseFloat_or_zero (Average_Wage_rate_per_day_per_person latestRecord),
             women_persondays = Num (of_int (parseInt_or_zero (Women_Persondays latestRecord))),
             sc_persondays = Num (of_int (parseInt_or_zero (SC_persondays latestRecord))),
             st_persondays = Num (of_int (parseInt_or_zero (ST_persondays latestRecord))),
             completed_works =
               Num (of_int (parseInt_or_zero (Number_of_Completed_Works latestRecord))),
             ongoing_works =
               Num (of_int (parseInt_or_zero (Number_of_Ongoing_Works latestRecord))),
             total_individuals_worked =
               Num (of_int (parseInt_or_zero (Total_Individuals_Worked latestRecord))),
             total_job_cards =
               Num (of_int (parseInt_or_zero (Total_No_of_JobCards_issued latestRecord))),
             households_100_days =
               Num (of_int (parseInt_or_zero
                     (Total_No_of_HHs_completed_100_Days_of_Wage_Employment latestRecord))),
             differently_abled_worked =
               Num (of_int (parseInt_or_zero (Differently_abled_persons_worked latestRecord))),
             payment_within_15_days =
               parseFloat_or_zero (percentage_payments_gererated_within_15_days latestRecord)
           \<rparr>))"

section \<open>The synthetic data generator\<close>

text \<open>
  The seed is the sum of three character codes; a missing character makes it \<open>NaN\<close>.
  \<open>Math.sin\<close> is a parameter of the model: \<open>Math_sin s\<close> is the finite double that the
  runtime returns at the integer \<open>s\<close>.
\<close>

definition seed_of :: "string \<Rightarrow> string \<Rightarrow> int option" where
  "seed_of districtCode monthYear =
     (case (charCodeAt districtCode 2, charCodeAt monthYear 5, charCodeAt monthYear 6) of
        (Some a, Some b, Some c) \<Rightarrow> Some (a + b + c)
      | _ \<Rightarrow> None)"

definition seededRandom :: "(int \<Rightarrow> rat) \<Rightarrow> int option \<Rightarrow> int \<Rightarrow> int \<Rightarrow> jsnum" where
  "seededRandom Math_sin seed mn mx =
     (case seed of
        None \<Rightarrow> NaN
      | Some s \<Rightarrow>
          (let x = Math_sin s * 10000
           in Num (of_int (mn + \<lfloor>(x - of_int \<lfloor>x\<rfloor>) * of_int (mx - mn + 1)\<rfloor>))))"

text \<open>\<open>generateMockData(districtCode, monthYear)\<close>, with \<open>now\<close> as in \<open>processAPIData\<close>.\<close>

definition generateMockData :: "(int \<Rightarrow> rat) \<Rightarrow> string \<Rightarrow> string \<Rightarrow> string \<Rightarrow> metrics_bundle" where
  "generateMockData Math_sin districtCode monthYear now =
     (let seed = seed_of districtCode monthYear;
          baseHouseholds = seededRandom Math_sin seed 15000 45000;
          avgDaysPerHousehold = seededRandom Math_sin seed 18 28;
          totalPersonDays = jfloor (jmul baseHouseholds avgDaysPerHousehold);
          wageRate = seededRandom Math_sin seed 200 250;
          totalAmount = jmul totalPersonDays wageRate;
          totalAmountCrores = jdiv totalAmount (Num 10000000)
      in \<lparr>
        district_code = districtCode,
        district_name = first_truthy (map_option name (find_district districtCode)) None,
        month_year = monthYear,
        total_households = baseHouseholds,
        total_person_days = totalPersonDays,
        total_amount_spent = totalAmountCrores,
        avg_days_per_household = round2 avgDaysPerHousehold,
        avg_amount_per_household = round2 (jdiv totalAmountCrores baseHouseholds),
        performance_score = seededRandom Math_sin seed 75 95,
        data_source = ''mock_data'',
        last_updated = now,
        financial_year =
          (case split_dash monthYear of
             y # _ \<Rightarrow> Some (y @ ''-'' @ show_succ (parseInt y))
           | [] \<Rightarrow> None),
        month = (case split_dash monthYear of _ # m # _ \<Rightarrow> Some m | _ \<Rightarrow> None),
        average_wage_rate = wageRate,
        women_persondays = jfloor (jmul totalPersonDays (Num (4 / 10))),
        sc_persondays = jfloor (jmul totalPersonDays (Num (15 / 100))),
        st_persondays = jfloor (jmul totalPersonDays (Num (8 / 100))),
        completed_works = seededRandom Math_sin seed 50 200,
        ongoing_works = seededRandom Math_sin seed 100 300,
        total_individuals_worked = jfloor (jmul baseHouseholds (Num (12 / 10))),
        total_job_cards = jfloor (jmul baseHouseholds (Num (11 / 10))),
        households_100_days = jfloor (jmul baseHouseholds (Num (15 / 100))),
        differently_abled_worked = jfloor (jmul baseHouseholds (Num (2 / 100))),
        payment_within_15_days = seededRandom Math_sin seed 75 95
      \<rparr>)"

section \<open>Clock readings and their two string forms\<close>

text \<open>
  A clock reading (\<open>Date.now()\<close>) is a number of milliseconds since 1970-01-01T00:00:00Z.
  The cache compares two strings made from clock readings: \<open>toISOString()\<close> on the
  JavaScript side, \<open>datetime('now')\<close> on the SQLite side, both in UTC.
\<close>

definition is_leap :: "int \<Rightarrow> bool" where
  "is_leap y = (y mod 4 = 0 \<and> (y mod 100 \<noteq> 0 \<or> y mod 400 = 0))"

text \<open>The number of days from 1970-01-01 to the first of January of year \<open>y\<close>.\<close>

definition days_before_year :: "int \<Rightarrow> int" where
  "days_before_year y =
     365 * (y - 1970) + ((y - 1) div 4 - (y - 1) div 100 + (y - 1) div 400) - 477"

text \<open>The year of day \<open>z\<close>, searched upwards from a year \<open>y\<close> that starts on or before \<open>z\<close>.\<close>

function year_from :: "int \<Rightarrow> int \<Rightarrow> int" where
  "year_from z y = (if days_before_year (y + 1) \<le> z then year_from z (y + 1) else y)"
  by pat_completeness auto
termination
proof (relation "measure (\<lambda>(z, y). nat (z - days_before_year y))")
  show "wf (measure (\<lambda>(z, y). nat (z - days_before_year y)))" by simp
next
  fix z y :: int
  assume le: "days_before_year (y + 1) \<le> z"
  have lin: "365 * (y - 1970) + (a - b + c) - 477 < 365 * (y + 1 - 1970) + (a' - b' + c') - 477"
    if "a \<le> a'" "b' \<le> b + 1" "c \<le> c'" for a a' b b' c c' :: int
    using that by (simp add: algebra_simps)
  have a: "(y - 1) div 4 \<le> (y + 1 - 1) div 4" by (rule zdiv_mono1) simp_all
  have c: "(y - 1) div 400 \<le> (y + 1 - 1) div 400" by (rule zdiv_mono1) simp_all
  have "(y + 1 - 1) div 100 \<le> (y - 1 + 100) div 100" by (rule zdiv_mono1) simp_all
  then have b: "(y + 1 - 1) div 100 \<le> (y - 1) div 100 + 1" by simp
  have "days_before_year y < days_before_year (y + 1)"
    unfolding days_before_year_def by (rule lin [OF a b c])
  with le show "((z, y + 1), (z, y)) \<in> measure (\<lambda>(z, y). nat (z - days_before_year y))"
    by simp
qed

definition month_lengths :: "bool \<Rightarrow> int list" where
  "month_lengths leap = [31, if leap then 29 else 28, 31, 30, 31, 30, 31, 31, 30, 31, 30, 31]"

text \<open>The month and the day of the month of the \<open>d\<close>-th day (from 0) counted from month \<open>m\<close>.\<close>

fun month_day :: "int list \<Rightarrow> nat \<Rightarrow> int \<Rightarrow> nat \<times> nat" where
  "month_day [] m d = (m, nat d + 1)"
| "month_day (l # ls) m d = (if d < l then (m, nat d + 1) else month_day ls (m + 1) (d - l))"

definition civil_from_days :: "nat \<Rightarrow> nat \<times> nat \<times> nat" where
  "civil_from_days z =
     (let y = year_from (int z) 1970;
          (m, d) = month_day (month_lengths (is_leap y)) 1 (int z - days_before_year y)
      in (nat y, m, d))"

text \<open>The date part \<open>YYYY-MM-DD\<close>, shared by both forms, for the years up to 9999.\<close>

definition date_string :: "nat \<Rightarrow> string" where
  "date_string z =
     (case civil_from_days z of (y, m, d) \<Rightarrow> pad 4 y @ ''-'' @ pad 2 m @ ''-'' @ pad 2 d)"

definition ms_per_day :: nat where
  "ms_per_day = 86400000"

definition clock_string :: "nat \<Rightarrow> string" where
  "clock_string t =
     (let s = (t mod ms_per_day) div 1000
      in pad 2 (s div 3600) @ '':'' @ pad 2 ((s div 60) mod 60) @ '':'' @ pad 2 (s mod 60))"

text \<open>\<open>new Date(t).toISOString()\<close>, for example \<open>2024-03-15T06:00:00.000Z\<close>.\<close>

definition toISOString :: "nat \<Rightarrow> string" where
  "toISOString t =
     date_string (t div ms_per_day) @ ''T'' @ clock_string t @ ''.'' @ pad 3 (t mod 1000) @ ''Z''"

text \<open>SQLite's \<open>datetime('now')\<close> at clock reading \<open>t\<close>, for example \<open>2024-03-15 23:00:00\<close>.\<close>

definition sqlite_datetime :: "nat \<Rightarrow> string" where
  "sqlite_datetime t = date_string (t div ms_per_day) @ '' '' @ clock_string t"

text \<open>
  SQLite orders two TEXT values by \<open>memcmp\<close>: bytewise, a proper prefix first. The
  column \<open>expires_at\<close> holds text, and so does the result of \<open>datetime\<close>.
\<close>

fun memcmp_less :: "string \<Rightarrow> string \<Rightarrow> bool" where
  "memcmp_less [] [] = False"
| "memcmp_less [] (y # ys) = True"
| "memcmp_less (x # xs) [] = False"
| "memcmp_less (x # xs) (y # ys) =
     ((of_char x :: nat) < of_char y \<or> (x = y \<and> memcmp_less xs ys))"

section \<open>The cache table\<close>

text \<open>
  \<open>JSON.parse(JSON.stringify(b))\<close> for a bundle: a number that is not finite comes back
  as \<open>null\<close>; a missing string stays missing.
\<close>

definition json_number :: "jsnum \<Rightarrow> jsnum" where
  "json_number v = (case v of Num x \<Rightarrow> Num x | _ \<Rightarrow> Null)"

definition json_roundtrip :: "metrics_bundle \<Rightarrow> metrics_bundle" where
  "json_roundtrip b = \<lparr>
     district_code = district_code b,
     district_name = district_name b,
     month_year = month_year b,
     total_households = json_number (total_households b),
     total_person_days = json_number (total_person_days b),
     total_amount_spent = json_number (total_amount_spent b),
     avg_days_per_household = json_number (avg_days_per_household b),
     avg_amount_per_household = json_number (avg_amount_per_household b),
     performance_score = json_number (performance_score b),
     data_source = data_source b,
     last_updated = last_updated b,
     financial_year = financial_year b,
     month = month b,
     average_wage_rate = json_number (average_wage_rate b),
     women_persondays = json_number (women_persondays b),
     sc_persondays = json_number (sc_persondays b),
     st_persondays = json_number (st_persondays b),
     completed_works = json_number (completed_works b),
     ongoing_works = json_number (ongoing_works b),
     total_individuals_worked = json_number (total_individuals_worked b),
     total_job_cards = json_number (total_job_cards b),
     households_100_days = json_number (households_100_days b),
     differently_abled_worked = json_number (differently_abled_worked b),
     payment_within_15_days = json_number (payment_within_15_days b)
   \<rparr>"

text \<open>
  A row of \<open>api_cache\<close> (the bundle stands for its JSON text), and the state that the
  service works on: the table, keyed by \<open>cache_key\<close>, and a count of the requests sent
  upstream.
\<close>

record cache_row =
  row_data :: metrics_bundle
  expires_at :: string

record world =
  api_cache :: "string \<rightharpoonup> cache_row"
  upstream_calls :: nat

text \<open>What the upstream request of one call answers.\<close>

datatype http_result = HttpError | NoRecords | Records "api_row list"

text \<open>
  What the environment does during one call of \<open>fetchDistrictData\<close>: the clock when
  SQLite evaluates \<open>datetime('now')\<close>, whether the SELECT fails, the upstream answer to
  the request for a financial year and a month name, the clock when the bundle is
  stamped, the clock when \<open>setCachedData\<close> reads \<open>Date.now()\<close>, whether the INSERT fails.
\<close>

record io =
  sql_now :: nat
  read_fails :: bool
  upstream :: "string \<Rightarrow> string option \<Rightarrow> http_result"
  date_now :: nat
  write_now :: nat
  write_fails :: bool

text \<open>
  \<open>getCachedData(key)\<close>:
  \<open>SELECT data FROM api_cache WHERE cache_key = ? AND expires_at > datetime("now")\<close>.
\<close>

definition getCachedData :: "world \<Rightarrow> io \<Rightarrow> string \<Rightarrow> error + metrics_bundle option" where
  "getCachedData w e key =
     (if read_fails e then Inl PersistenceError
      else Inr (case api_cache w key of
                  None \<Rightarrow> None
                | Some row \<Rightarrow>
                    if memcmp_less (sqlite_datetime (sql_now e)) (expires_at row)
                    then Some (row_data row) else None))"

text \<open>\<open>setCachedData(key, data, ttl)\<close>; \<open>READ_ONLY_DB\<close> is the flag of the deployment.\<close>

definition setCachedData ::
  "bool \<Rightarrow> world \<Rightarrow> io \<Rightarrow> string \<Rightarrow> metrics_bundle \<Rightarrow> nat \<Rightarrow> error + world" where
  "setCachedData READ_ONLY_DB w e key d ttl =
     (if READ_ONLY_DB then Inr w
      else if write_fails e then Inl PersistenceError
      else Inr (w\<lparr>api_cache := (api_cache w)(key \<mapsto>
                  \<lparr>row_data = json_roundtrip d,
                   expires_at = toISOString (write_now e + ttl)\<rparr>)\<rparr>))"

section \<open>The acquisition service\<close>

definition monthNames :: "string list" where
  "monthNames = [''Jan'', ''Feb'', ''Mar'', ''Apr'', ''May'', ''Jun'',
                 ''Jul'', ''Aug'', ''Sep'', ''Oct'', ''Nov'', ''Dec'']"

text \<open>\<open>monthNames[parseInt(month) - 1]\<close>, \<open>undefined\<close> outside the table.\<close>

definition monthName_of :: "string option \<Rightarrow> string option" where
  "monthName_of m =
     (case m of
        None \<Rightarrow> None
      | Some s \<Rightarrow>
          (case parseInt s of
             None \<Rightarrow> None
           | Some n \<Rightarrow> if 1 \<le> n \<and> n \<le> 12 then Some (monthNames ! nat (n - 1)) else None))"

text \<open>
  The filters of the upstream request: \<open>fin_year\<close> is the year of the period and its
  successor, \<open>month\<close> the name of the month.
\<close>

definition upstream_request :: "string \<Rightarrow> string \<times> string option" where
  "upstream_request monthYear =
     (let year = (case split_dash monthYear of y # _ \<Rightarrow> y | [] \<Rightarrow> []);
          mon = (case split_dash monthYear of _ # m # _ \<Rightarrow> Some m | _ \<Rightarrow> None);
          finYear = year @ ''-'' @ show_succ (parseInt year);
          monthName = monthName_of mon
      in (finYear, monthName))"

text \<open>
  \<open>fetchRealAPIData(districtCode, monthYear)\<close>: a failed request, a response without
  records and a response whose records match no district all raise.
\<close>

definition fetchRealAPIData :: "io \<Rightarrow> string \<Rightarrow> string \<Rightarrow> error + metrics_bundle" where
  "fetchRealAPIData e districtCode monthYear =
     (case upstream_request monthYear of
        (finYear, monthName) \<Rightarrow>
          (case upstream e finYear monthName of
             HttpError \<Rightarrow> Inl UpstreamUnavailable
           | NoRecords \<Rightarrow> Inl NoDataReceived
           | Records records \<Rightarrow>
               processAPIData records districtCode monthYear (toISOString (date_now e))))"

definition six_hours :: nat where
  "six_hours = 6 * 60 * 60 * 1000"

definition cache_key_of :: "string \<Rightarrow> string \<Rightarrow> string" where
  "cache_key_of districtCode monthYear = ''district_'' @ districtCode @ ''_'' @ monthYear"

text \<open>
  \<open>realData || this.generateMockData(districtCode, monthYear)\<close>, where \<open>realData\<close> stays
  \<open>null\<close> when \<open>fetchRealAPIData\<close> raises: the inner \<open>try\<close> swallows the error.
\<close>

definition realData_or_mock :: "(int \<Rightarrow> rat) \<Rightarrow> io \<Rightarrow> string \<Rightarrow> string \<Rightarrow> metrics_bundle" where
  "realData_or_mock Math_sin e districtCode monthYear =
     (case fetchRealAPIData e districtCode monthYear of
        Inr realData \<Rightarrow> realData
      | Inl apiError \<Rightarrow>
          generateMockData Math_sin districtCode monthYear (toISOString (date_now e)))"

text \<open>
  \<open>fetchDistrictData(districtCode, monthYear)\<close>. The outer \<open>catch\<close> turns whatever the two
  cache operations raise into \<open>Failed to fetch district data\<close>.
\<close>

definition fetchDistrictData ::
  "bool \<Rightarrow> (int \<Rightarrow> rat) \<Rightarrow> world \<Rightarrow> io \<Rightarrow> string \<Rightarrow> string
     \<Rightarrow> (error + metrics_bundle) \<times> world" where
  "fetchDistrictData READ_ONLY_DB Math_sin w e districtCode monthYear =
     (let cacheKey = cache_key_of districtCode monthYear in
      case getCachedData w e cacheKey of
        Inl err \<Rightarrow> (Inl FailedToFetchDistrictData, w)
      | Inr (Some cachedData) \<Rightarrow> (Inr cachedData, w)
      | Inr None \<Rightarrow>
          (let w1 = w\<lparr>upstream_calls := upstream_calls w + 1\<rparr>;
               d = realData_or_mock Math_sin e districtCode monthYear
           in case setCachedData READ_ONLY_DB w1 e cacheKey d six_hours of
                Inl err \<Rightarrow> (Inl FailedToFetchDistrictData, w1)
              | Inr w2 \<Rightarrow> (Inr d, w2)))"

section \<open>History\<close>

text \<open>
  \<open>currentDate.clone().subtract(i, 'months').format('YYYY-MM')\<close>, from the year and the
  month (1 to 12) of the local date; the four-digit form is that of the years 0 to 9999.
\<close>

definition months_ago :: "nat \<times> nat \<Rightarrow> nat \<Rightarrow> int" where
  "months_ago cur i = int (fst cur) * 12 + (int (snd cur) - 1) - int i"

definition format_month :: "int \<Rightarrow> string" where
  "format_month k =
     (let y = k div 12; m = nat (k mod 12) + 1
      in (if 0 \<le> y \<and> y \<le> 9999 then pad 4 (nat y)
          else (if y < 0 then ''-'' else ''+'') @ pad 6 (nat \<bar>y\<bar>))
         @ ''-'' @ pad 2 m)"

record hist_entry =
  h_month_year :: string
  h_total_households :: jsnum
  h_total_person_days :: jsnum
  h_total_amount_spent :: jsnum
  h_avg_days_per_household :: jsnum
  h_avg_amount_per_household :: jsnum
  h_performance_score :: jsnum
  h_data_source :: string

definition hist_entry_of :: "string \<Rightarrow> metrics_bundle \<Rightarrow> string \<Rightarrow> hist_entry" where
  "hist_entry_of monthYear d source = \<lparr>
     h_month_year = monthYear,
     h_total_households = total_households d,
     h_total_person_days = total_person_days d,
     h_total_amount_spent = total_amount_spent d,
     h_avg_days_per_household = avg_days_per_household d,
     h_avg_amount_per_household = avg_amount_per_household d,
     h_performance_score = performance_score d,
     h_data_source = source
   \<rparr>"

text \<open>
  The loop of \<open>getDistrictHistory\<close> from index \<open>i\<close> with \<open>n\<close> iterations left; \<open>ios i\<close> is
  what the environment does during the \<open>i\<close>-th fetch. A fetch that raises is replaced by
  mock data for that month.
\<close>

fun history_loop ::
  "bool \<Rightarrow> (int \<Rightarrow> rat) \<Rightarrow> (nat \<Rightarrow> io) \<Rightarrow> string \<Rightarrow> nat \<times> nat \<Rightarrow> nat \<Rightarrow> nat
     \<Rightarrow> world \<Rightarrow> hist_entry list \<Rightarrow> hist_entry list \<times> world" where
  "history_loop ro Math_sin ios districtCode cur i 0 w history = (history, w)"
| "history_loop ro Math_sin ios districtCode cur i (Suc n) w history =
     (let monthYear = format_month (months_ago cur i);
          (r, w') = fetchDistrictData ro Math_sin w (ios i) districtCode monthYear;
          entry = (case r of
                     Inr d \<Rightarrow>
                       hist_entry_of monthYear d
                         (if data_source d \<noteq> [] then data_source d else ''api'')
                   | Inl err \<Rightarrow>
                       hist_entry_of monthYear
                         (generateMockData Math_sin districtCode monthYear
                            (toISOString (date_now (ios i))))
                         ''mock'')
      in history_loop ro Math_sin ios districtCode cur (Suc i) n w' (history @ [entry]))"

text \<open>
  \<open>getDistrictHistory(districtCode, months)\<close>: the loop runs while \<open>i < months\<close>, and the
  result is the reversed list. Nothing in the body of its outer \<open>try\<close> raises.
\<close>

definition getDistrictHistory ::
  "bool \<Rightarrow> (int \<Rightarrow> rat) \<Rightarrow> world \<Rightarrow> (nat \<Rightarrow> io) \<Rightarrow> string \<Rightarrow> int \<Rightarrow> nat \<times> nat
     \<Rightarrow> hist_entry list \<times> world" where
  "getDistrictHistory ro Math_sin w ios districtCode months cur =
     (case history_loop ro Math_sin ios districtCode cur 0 (nat months) w [] of
        (history, w') \<Rightarrow> (rev history, w'))"

section \<open>Notions used in the statements\<close>

declare show_nat.simps [simp del]

declare year_from.simps [simp del]

text \<open>The seventeen numeric fields of a bundle.\<close>

definition numeric_fields :: "metrics_bundle \<Rightarrow> jsnum list" where
  "numeric_fields b =
     [total_households b, total_person_days b, total_amount_spent b,
      avg_days_per_household b, avg_amount_per_household b, performance_score b,
      average_wage_rate b, women_persondays b, sc_persondays b, st_persondays b,
      completed_works b, ongoing_works b, total_individuals_worked b, total_job_cards b,
      households_100_days b, differently_abled_worked b, payment_within_15_days b]"

definition all_finite :: "metrics_bundle \<Rightarrow> bool" where
  "all_finite b = list_all is_finite (numeric_fields b)"

text \<open>A period of the form \<open>YYYY-MM\<close>.\<close>

definition is_period :: "string \<Rightarrow> bool" where
  "is_period p =
     (length p = 7 \<and> list_all is_digit (take 4 p) \<and> p ! 4 = CHR ''-''
      \<and> list_all is_digit (drop 5 p))"

text \<open>
  The name matcher in the words of its description: a district's candidates are its
  lowercased name, that name without white space, that name with each run of white
  space replaced by a dot, and the aliases curated for its code; a label matches a
  code when the code names a district and the lowercased label contains a candidate.
\<close>

definition curated_aliases :: "string \<Rightarrow> string list" where
  "curated_aliases c =
     (if c = ''AP013'' then [''y.s.r'', ''ysr'', ''kadapa'', ''y s r'']
      else if c = ''AP004'' then [''ntr'', ''guntur'']
      else if c = ''AP012'' then [''west godavari'', ''westgodavari'']
      else if c = ''AP003'' then [''east godavari'', ''eastgodavari'']
      else [])"

definition candidate_forms :: "district \<Rightarrow> string list" where
  "candidate_forms d =
     [toLowerCase (name d),
      filter (\<lambda>ch. \<not> is_space ch) (toLowerCase (name d)),
      replace_ws ''.'' (toLowerCase (name d))]
     @ curated_aliases (code d)"

definition matcher_spec :: "string \<Rightarrow> string \<Rightarrow> bool" where
  "matcher_spec districtCode label =
     (case find_district districtCode of
        None \<Rightarrow> False
      | Some d \<Rightarrow> \<exists>c \<in> set (candidate_forms d). sublist c (toLowerCase label))"

section \<open>Sample inputs\<close>

text \<open>
  The sine at the seeds 145 to 153, rounded to double: these are the seeds of the
  thirteen district codes in the twelve months of a year.
\<close>

definition sin_double :: "int \<Rightarrow> rat" where
  "sin_double s =
     (if s = 145 then 2106536937490815 / 4503599627370496
      else if s = 146 then 8975396393514813 / 9007199254740992
      else if s = 147 then 42857662968841 / 70368744177664
      else if s = 148 then - 6094872594423227 / 18014398509481984
      else if s = 149 then - 1097356822093881 / 1125899906842624
      else if s = 150 then - 6439034444187713 / 9007199254740992
      else if s = 151 then 7283217044932221 / 36028797018963968
      else if s = 152 then 4203301962972611 / 4503599627370496
      else if s = 153 then 7263410710183663 / 9007199254740992
      else 0)"

text \<open>An upstream row with no field, and the row of the end-to-end scenario.\<close>

definition empty_row :: api_row where
  "empty_row = \<lparr>
     api_district_name = None, fin_year = None, api_month = None,
     Persondays_of_Central_Liability_so_far = None, Total_Households_Worked = None,
     Total_Exp = None, Average_days_of_employment_provided_per_Household = None,
     Average_Wage_rate_per_day_per_person = None, Women_Persondays = None,
     SC_persondays = None, ST_persondays = None, Number_of_Completed_Works = None,
     Number_of_Ongoing_Works = None, Total_Individuals_Worked = None,
     Total_No_of_JobCards_issued = None,
     Total_No_of_HHs_completed_100_Days_of_Wage_Employment = None,
     Differently_abled_persons_worked = None,
     percentage_payments_gererated_within_15_days = None\<rparr>"

definition ntr_row :: api_row where
  "ntr_row = empty_row\<lparr>
     api_district_name := Some ''NTR'',
     Total_Exp := Some ''12.5'',
     Total_Households_Worked := Some ''20000'',
     Persondays_of_Central_Liability_so_far := Some ''450000''\<rparr>"

text \<open>Environments of one call: the upstream is down, or answers with one row.\<close>

definition upstream_down :: "string \<Rightarrow> string option \<Rightarrow> http_result" where
  "upstream_down finYear monthName = HttpError"

definition upstream_ntr :: "string \<Rightarrow> string option \<Rightarrow> http_result" where
  "upstream_ntr finYear monthName = Records [ntr_row]"

definition empty_world :: world where
  "empty_world = \<lparr>api_cache = Map.empty, upstream_calls = 0\<rparr>"

text \<open>
  A call on 2024-03-15 at 00:00:00 UTC, one at 05:00:00 and one at 23:00:00 of the same
  day, each with all its clock readings at that instant and no database failure; and a
  call at 00:00:00 whose SELECT fails.
\<close>

definition io_at :: "nat \<Rightarrow> (string \<Rightarrow> string option \<Rightarrow> http_result) \<Rightarrow> io" where
  "io_at t up = \<lparr>sql_now = t, read_fails = False, upstream = up, date_now = t,
                 write_now = t, write_fails = False\<rparr>"

definition midnight :: nat where
  "midnight = 1710460800000"

definition five_am :: nat where
  "five_am = 1710478800000"

definition eleven_pm :: nat where
  "eleven_pm = 1710543600000"

definition io_read_error :: io where
  "io_read_error = (io_at midnight upstream_down)\<lparr>read_fails := True\<rparr>"

definition io_write_error :: io where
  "io_write_error = (io_at midnight upstream_down)\<lparr>write_fails := True\<rparr>"

text \<open>Rows that carry nothing but a district label.\<close>

definition ysr_row :: api_row where
  "ysr_row = empty_row\<lparr>api_district_name := Some ''Y.S.R. Kadapa''\<rparr>"

definition unknown_row :: api_row where
  "unknown_row = empty_row\<lparr>api_district_name := Some ''Unknown District''\<rparr>"

text \<open>
  The generated bundle of \<open>AP001\<close> for \<open>2024-03\<close>, stamped at midnight, and the cache after
  \<open>setCachedData\<close> stored it at midnight for six hours.
\<close>

definition sample_bundle :: metrics_bundle where
  "sample_bundle = generateMockData sin_double ''AP001'' ''2024-03'' (toISOString midnight)"

definition cached_world :: world where
  "cached_world =
     (case setCachedData False empty_world (io_at midnight upstream_down)
             (cache_key_of ''AP001'' ''2024-03'') sample_bundle six_hours of
        Inr w \<Rightarrow> w
      | Inl err \<Rightarrow> empty_world)"

section \<open>Evaluating clock strings\<close>

lemma pad_numeral:
  "pad (numeral k) n = pad (pred_numeral k) (n div 10) @ [digit_char (n mod 10)]"
proof -
  have "pad (Suc (pred_numeral k)) n = pad (pred_numeral k) (n div 10) @ [digit_char (n mod 10)]"
    by (rule pad.simps)
  then show ?thesis by (simp only: numeral_eq_Suc)
qed

lemmas clock_eval =
  toISOString_def sqlite_datetime_def date_string_def civil_from_days_def ms_per_day_def
  clock_string_def days_before_year_def is_leap_def month_lengths_def digit_char_def Let_def
  year_from.simps pad_numeral

lemma iso_six: "toISOString 1710482400000 = ''2024-03-15T06:00:00.000Z''"
  by (simp add: clock_eval)

lemma iso_six_1: "toISOString 1710482401000 = ''2024-03-15T06:00:01.000Z''"
  by (simp add: clock_eval)

section \<open>The synthetic data generator is a function of its key and the clock\<close>

text \<open>
  Claim C2, as stated: two calls of \<open>generateMockData\<close> with the same district code and
  period return bundles equal in every field, \<open>last_updated\<close> included. It fails: two
  calls one second apart differ in \<open>last_updated\<close>, which is the clock of the call.
\<close>

theorem mock_last_updated_counterexample:
  "generateMockData sin_double ''AP004'' ''2024-03'' (toISOString 1710482400000)
     \<noteq> generateMockData sin_double ''AP004'' ''2024-03'' (toISOString 1710482401000)"
proof
  assume "generateMockData sin_double ''AP004'' ''2024-03'' (toISOString 1710482400000)
     = generateMockData sin_double ''AP004'' ''2024-03'' (toISOString 1710482401000)"
  then have "last_updated (generateMockData sin_double ''AP004'' ''2024-03'' (toISOString 1710482400000))
     = last_updated (generateMockData sin_double ''AP004'' ''2024-03'' (toISOString 1710482401000))"
    by simp
  then show False
    by (simp add: generateMockData_def Let_def iso_six iso_six_1)
qed

text \<open>
  Claim C2, amended: for a fixed district code and period, two calls of
  \<open>generateMockData\<close> return bundles equal in every field other than \<open>last_updated\<close>,
  and \<open>last_updated\<close> is the ISO string of the clock at the call.
\<close>

theorem mock_same_key_same_fields:
  "generateMockData Math_sin districtCode monthYear now1
     = (generateMockData Math_sin districtCode monthYear now2)\<lparr>last_updated := now1\<rparr>
   \<and> last_updated (generateMockData Math_sin districtCode monthYear now1) = now1"
  by (simp add: generateMockData_def Let_def)

text \<open>
  Claim C9: in every bundle of \<open>generateMockData\<close> the field \<open>payment_within_15_days\<close>
  equals the field \<open>performance_score\<close>: both are \<open>seededRandom(75, 95)\<close>, and a draw
  depends on the seed of the call and its two bounds only.
\<close>

theorem mock_payment_equals_score:
  "payment_within_15_days (generateMockData Math_sin districtCode monthYear now)
     = performance_score (generateMockData Math_sin districtCode monthYear now)
   \<and> performance_score (generateMockData Math_sin districtCode monthYear now)
     = seededRandom Math_sin (seed_of districtCode monthYear) 75 95"
  by (simp add: generateMockData_def Let_def)

lemma numeric_fields_seed:
  "seed_of c1 p1 = seed_of c2 p2 \<Longrightarrow>
   numeric_fields (generateMockData Math_sin c1 p1 now1)
     = numeric_fields (generateMockData Math_sin c2 p2 now2)"
  by (simp add: numeric_fields_def generateMockData_def Let_def)

text \<open>
  Claim C10: the numbers of \<open>generateMockData\<close> do not depend on the year. For any
  district code and any two periods of the form \<open>YYYY-MM\<close> with equal characters at
  positions 5 and 6, the seventeen numeric fields of the two bundles are equal, whatever
  the clock of either call.
\<close>

theorem mock_numbers_ignore_year:
  assumes "is_period p1" and "is_period p2"
    and "p1 ! 5 = p2 ! 5" and "p1 ! 6 = p2 ! 6"
  shows "numeric_fields (generateMockData Math_sin districtCode p1 now1)
           = numeric_fields (generateMockData Math_sin districtCode p2 now2)"
proof -
  from assms have "charCodeAt p1 5 = charCodeAt p2 5" "charCodeAt p1 6 = charCodeAt p2 6"
    by (simp_all add: charCodeAt_def is_period_def)
  then have "seed_of districtCode p1 = seed_of districtCode p2"
    by (simp add: seed_of_def)
  then show ?thesis by (rule numeric_fields_seed)
qed

text \<open>
  The periods \<open>2023-03\<close> and \<open>2024-03\<close> of district \<open>AP004\<close>: equal numbers, different
  financial years.
\<close>

theorem mock_numbers_ignore_year_witness:
  "is_period ''2023-03'' \<and> is_period ''2024-03''
   \<and> numeric_fields (generateMockData sin_double ''AP004'' ''2023-03'' (toISOString midnight))
       = numeric_fields (generateMockData sin_double ''AP004'' ''2024-03'' (toISOString eleven_pm))
   \<and> financial_year (generateMockData sin_double ''AP004'' ''2023-03'' (toISOString midnight))
       \<noteq> financial_year (generateMockData sin_double ''AP004'' ''2024-03'' (toISOString eleven_pm))"
proof -
  have a: "is_period ''2023-03''" by code_simp
  have b: "is_period ''2024-03''" by code_simp
  have c: "''2023-03'' ! 5 = ''2024-03'' ! 5" "''2023-03'' ! 6 = ''2024-03'' ! 6" by simp_all
  have d: "financial_year (generateMockData sin_double ''AP004'' ''2023-03'' (toISOString midnight))
       \<noteq> financial_year (generateMockData sin_double ''AP004'' ''2024-03'' (toISOString eleven_pm))"
    by (simp add: generateMockData_def Let_def)
  show ?thesis
    using a b d
      mock_numbers_ignore_year [OF a b c, of sin_double "''AP004''" "toISOString midnight"
        "toISOString eleven_pm"]
    by simp
qed

section \<open>The name matcher\<close>

lemmas str_eval = toLowerCase_def lower_char_def is_space_def is_digit_def digit_val_def
  replace_ws_def

lemma starts_with_prefix: "starts_with hay needle = prefix needle hay"
  by (induction hay needle rule: starts_with.induct) auto

lemma includes_str_sublist: "includes_str hay needle = sublist needle hay"
  by (induction hay) (auto simp add: starts_with_prefix sublist_Cons_right)

lemma replace_ws_from_empty: "replace_ws_from b [] s = filter (\<lambda>ch. \<not> is_space ch) s"
  by (induction s arbitrary: b) auto

lemma possibleNames_candidates: "set (possibleNames d) = set (candidate_forms d)"
  by (auto simp add: possibleNames_def candidate_forms_def curated_aliases_def replace_ws_def
      replace_ws_from_empty)

lemma possibleNames_table:
  "map (\<lambda>d. (code d, possibleNames d)) andhraPradeshDistricts =
     [(''AP001'', [''anantapur'', ''anantapur'', ''anantapur'']),
      (''AP002'', [''chittoor'', ''chittoor'', ''chittoor'']),
      (''AP003'', [''east godavari'', ''eastgodavari'', ''east.godavari'', ''east godavari'',
                   ''eastgodavari'']),
      (''AP004'', [''guntur'', ''guntur'', ''guntur'', ''ntr'', ''guntur'']),
      (''AP005'', [''krishna'', ''krishna'', ''krishna'']),
      (''AP006'', [''kurnool'', ''kurnool'', ''kurnool'']),
      (''AP007'', [''nellore'', ''nellore'', ''nellore'']),
      (''AP008'', [''prakasam'', ''prakasam'', ''prakasam'']),
      (''AP009'', [''srikakulam'', ''srikakulam'', ''srikakulam'']),
      (''AP010'', [''visakhapatnam'', ''visakhapatnam'', ''visakhapatnam'']),
      (''AP011'', [''vizianagaram'', ''vizianagaram'', ''vizianagaram'']),
      (''AP012'', [''west godavari'', ''westgodavari'', ''west.godavari'', ''west godavari'',
                   ''westgodavari'']),
      (''AP013'', [''ysr kadapa'', ''ysrkadapa'', ''ysr.kadapa'', ''y.s.r'', ''ysr'', ''kadapa'',
                   ''y s r''])]"
  by (simp add: andhraPradeshDistricts_def possibleNames_def str_eval)

lemma find_district_in_table:
  "find_district c = Some d \<Longrightarrow> d \<in> set andhraPradeshDistricts \<and> code d = c"
  unfolding find_district_def by (auto simp add: find_Some_iff)


lemma table_candidates:
  assumes "find_district c = Some d"
  shows "(c, possibleNames d) \<in> set (map (\<lambda>d. (code d, possibleNames d)) andhraPradeshDistricts)"
proof -
  from find_district_in_table [OF assms] have "d \<in> set andhraPradeshDistricts" "code d = c"
    by simp_all
  then show ?thesis by force
qed

lemma candidates_nonempty:
  assumes "find_district c = Some d"
  shows "[] \<notin> set (possibleNames d)"
  using table_candidates [OF assms] unfolding possibleNames_table by auto

lemma unknown_district_no_candidate:
  assumes "find_district c = Some d"
  shows "\<not> list_ex (includes_str ''unknown district'') (possibleNames d)"
  using table_candidates [OF assms] unfolding possibleNames_table by auto

lemma matches_district_label:
  assumes "api_district_name r = Some label"
  shows "matches_district c r =
     (case find_district c of
        None \<Rightarrow> False
      | Some d \<Rightarrow> toLowerCase label \<noteq> []
                 \<and> list_ex (includes_str (toLowerCase label)) (possibleNames d))"
  using assms by (auto simp add: matches_district_def split: option.splits)

lemma matches_district_spec:
  assumes "api_district_name r = Some label"
  shows "matches_district c r = matcher_spec c label"
proof (cases "find_district c")
  case None
  then show ?thesis by (simp add: matches_district_label [OF assms] matcher_spec_def)
next
  case (Some d)
  have ne: "[] \<notin> set (candidate_forms d)"
    using candidates_nonempty [OF Some] by (simp add: possibleNames_candidates)
  show ?thesis
  proof (cases "toLowerCase label = []")
    case True
    with ne show ?thesis
      by (auto simp add: matches_district_label [OF assms] matcher_spec_def Some)
  next
    case False
    then show ?thesis
      by (simp add: matches_district_label [OF assms] matcher_spec_def Some list_ex_iff
          includes_str_sublist possibleNames_candidates)
  qed
qed

lemma lower_ysr: "toLowerCase ''Y.S.R. Kadapa'' = ''y.s.r. kadapa''"
  by (simp add: str_eval)

lemma lower_unknown: "toLowerCase ''Unknown District'' = ''unknown district''"
  by (simp add: str_eval)

lemma find_AP013:
  "find_district ''AP013''
     = Some \<lparr>code = ''AP013'', name = ''YSR Kadapa'', lat = 14.4667, lng = 78.8167\<rparr>"
  by (simp add: find_district_def andhraPradeshDistricts_def)

lemma ysr_matches:
  assumes "api_district_name r = Some ''Y.S.R. Kadapa''"
  shows "matches_district ''AP013'' r"
proof -
  have "(''AP013'', possibleNames \<lparr>code = ''AP013'', name = ''YSR Kadapa'', lat = 14.4667, lng = 78.8167\<rparr>)
      \<in> set (map (\<lambda>d. (code d, possibleNames d)) andhraPradeshDistricts)"
    by (rule table_candidates [OF find_AP013])
  then have "possibleNames \<lparr>code = ''AP013'', name = ''YSR Kadapa'', lat = 14.4667, lng = 78.8167\<rparr>
     = [''ysr kadapa'', ''ysrkadapa'', ''ysr.kadapa'', ''y.s.r'', ''ysr'', ''kadapa'', ''y s r'']"
    unfolding possibleNames_table by simp
  then show ?thesis
    by (simp add: matches_district_label [OF assms] find_AP013 lower_ysr)
qed

lemma unknown_never_matches:
  assumes "api_district_name r = Some ''Unknown District''"
  shows "\<not> matches_district c r"
  using unknown_district_no_candidate [of c]
  by (simp add: matches_district_label [OF assms] lower_unknown split: option.splits)

lemma processAPIData_no_match:
  assumes "\<forall>r \<in> set records. \<not> matches_district c r"
  shows "processAPIData records c p now = Inl (NoDataFound c)"
proof -
  from assms have "filter (matches_district c) records = []" by (simp add: filter_empty_conv)
  then show ?thesis by (simp add: processAPIData_def)
qed

text \<open>
  Claim C8: for a row with a label, the filter of \<open>processAPIData\<close> accepts the row
  exactly when the code names a district and the lowercased label contains, as a
  substring, one of that district's candidates (its lowercased name, the name without
  white space, the name with white space replaced by a dot, a curated alias of the
  code). The label \<open>Y.S.R. Kadapa\<close> matches code \<open>AP013\<close>. The label \<open>Unknown District\<close>
  matches no code, and a response made of such a row takes the zero-match path: it
  raises the error that names the district code.
\<close>

theorem name_matcher_correct:
  "(api_district_name r = Some label \<longrightarrow> matches_district c r = matcher_spec c label)
   \<and> (api_district_name r1 = Some ''Y.S.R. Kadapa'' \<longrightarrow> matches_district ''AP013'' r1)
   \<and> (api_district_name r2 = Some ''Unknown District'' \<longrightarrow>
        \<not> matches_district c2 r2 \<and> processAPIData [r2] c2 p now = Inl (NoDataFound c2))"
proof (intro conjI impI)
  assume "api_district_name r = Some label"
  then show "matches_district c r = matcher_spec c label" by (rule matches_district_spec)
next
  assume "api_district_name r1 = Some ''Y.S.R. Kadapa''"
  then show "matches_district ''AP013'' r1" by (rule ysr_matches)
next
  assume a: "api_district_name r2 = Some ''Unknown District''"
  then show "\<not> matches_district c2 r2" by (rule unknown_never_matches)
  then have "\<forall>x \<in> set [r2]. \<not> matches_district c2 x" by simp
  then show "processAPIData [r2] c2 p now = Inl (NoDataFound c2)"
    by (rule processAPIData_no_match)
qed

lemma ntr_row_matches: "matches_district ''AP004'' ntr_row"
  by (simp add: matches_district_def ntr_row_def empty_row_def find_district_def
      andhraPradeshDistricts_def possibleNames_def str_eval)

text \<open>
  The row labelled \<open>NTR\<close> matches \<open>AP004\<close> through the alias \<open>ntr\<close>; the two labels of
  the claim behave as it says for code \<open>AP013\<close>.
\<close>

theorem name_matcher_correct_witness:
  "matches_district ''AP004'' ntr_row \<and> matcher_spec ''AP004'' ''NTR''
   \<and> matches_district ''AP013'' ysr_row
   \<and> \<not> matches_district ''AP013'' unknown_row
   \<and> processAPIData [unknown_row] ''AP013'' ''2024-03'' (toISOString midnight)
       = Inl (NoDataFound ''AP013'')"
proof -
  have a: "api_district_name ntr_row = Some ''NTR''"
    by (simp add: ntr_row_def empty_row_def)
  have b: "api_district_name ysr_row = Some ''Y.S.R. Kadapa''"
    by (simp add: ysr_row_def empty_row_def)
  have c: "api_district_name unknown_row = Some ''Unknown District''"
    by (simp add: unknown_row_def empty_row_def)
  show ?thesis
    using a b c ntr_row_matches
      name_matcher_correct [of ntr_row "''NTR''" "''AP004''" ysr_row unknown_row "''AP013''"
        "''2024-03''" "toISOString midnight"]
    by simp
qed

section \<open>The performance scorer is bounded and monotone\<close>
















end
